theory Spec2Isabelle
  imports Main "HOL-Library.Sublist"
begin

section \<open>Swat Chat backend: a shallow embedding of Backend/backend.py\<close>

text \<open>
  The backend is a FastAPI module with one bootstrap step run at import time (fetch the
  SWaT manual if it is not on disk, parse it into pages), one adapter over the arXiv
  client, and four request handlers. Everything the module does to the outside world is
  made explicit here: the file on disk, the module global \<open>swat_docs\<close>, and logs of the
  network fetches, file writes and searches the code issues are fields of a state record;
  everything the outside world answers (HTTP responses, write failures, the PDF parser's
  output, the papers the index streams, the clock) is a parameter.
\<close>

subsection \<open>Strings and values\<close>

text \<open>
  A Python \<open>str\<close> is a sequence of Unicode code points, and slicing and \<open>len\<close> count code
  points; a \<open>bytes\<close> value is a sequence of octets. Both are lists of naturals. \<open>lit\<close>
  turns a literal of the source into its code points.
\<close>

type_synonym pystr = "nat list"
type_synonym bytes = "nat list"

definition lit :: "string \<Rightarrow> pystr" where
  "lit s = map of_char s"

text \<open>Dictionaries keep insertion order, so a dictionary is an association list.\<close>

datatype json =
    JNull
  | JBool bool
  | JNum int
  | JStr pystr
  | JArr "json list"
  | JObj "(pystr \<times> json) list"

text \<open>
  Exceptions are values. \<open>except Exception\<close> catches the instances of \<open>Exception\<close> (network,
  I/O and parse errors among them) and lets through what derives from \<open>BaseException\<close>
  only (\<open>KeyboardInterrupt\<close>, \<open>SystemExit\<close>). The argument is the text of the exception.
\<close>

datatype error = Exception pystr | BaseException pystr

subsection \<open>Dates and their ISO rendering\<close>

record datetime =
  year :: nat
  month :: nat
  day :: nat
  hour :: nat
  minute :: nat
  second :: nat
  microsecond :: nat

record calendar_date =
  date_year :: nat
  date_month :: nat
  date_day :: nat

text \<open>The ranges Python's \<open>datetime\<close> type guarantees for its fields.\<close>

definition valid_datetime :: "datetime \<Rightarrow> bool" where
  "valid_datetime t \<longleftrightarrow>
     1 \<le> year t \<and> year t \<le> 9999 \<and> 1 \<le> month t \<and> month t \<le> 12 \<and>
     1 \<le> day t \<and> day t \<le> 31 \<and> hour t < 24 \<and> minute t < 60 \<and> second t < 60 \<and>
     microsecond t < 1000000"

definition date :: "datetime \<Rightarrow> calendar_date" where
  "date t = \<lparr>date_year = year t, date_month = month t, date_day = day t\<rparr>"

text \<open>The code point of the last decimal digit of a number (\<open>48\<close> is the character 0).\<close>

definition digit :: "nat \<Rightarrow> nat" where
  "digit n = 48 + n mod 10"

definition zero_pad2 :: "nat \<Rightarrow> pystr" where
  "zero_pad2 n = [digit (n div 10), digit n]"

definition zero_pad4 :: "nat \<Rightarrow> pystr" where
  "zero_pad4 n = [digit (n div 1000), digit (n div 100), digit (n div 10), digit n]"

definition zero_pad6 :: "nat \<Rightarrow> pystr" where
  "zero_pad6 n =
     [digit (n div 100000), digit (n div 10000), digit (n div 1000),
      digit (n div 100), digit (n div 10), digit n]"

text \<open>\<open>date.isoformat()\<close>: \<open>YYYY-MM-DD\<close>.\<close>

definition date_isoformat :: "calendar_date \<Rightarrow> pystr" where
  "date_isoformat d =
     zero_pad4 (date_year d) @ lit ''-'' @ zero_pad2 (date_month d) @ lit ''-'' @
     zero_pad2 (date_day d)"

text \<open>
  \<open>datetime.isoformat()\<close> of a naive datetime: \<open>YYYY-MM-DDTHH:MM:SS\<close>, followed by
  \<open>.ffffff\<close> when the microsecond field is not zero.
\<close>

definition isoformat :: "datetime \<Rightarrow> pystr" where
  "isoformat t =
     date_isoformat (date t) @ lit ''T'' @ zero_pad2 (hour t) @ lit '':'' @
     zero_pad2 (minute t) @ lit '':'' @ zero_pad2 (second t) @
     (if microsecond t = 0 then [] else lit ''.'' @ zero_pad6 (microsecond t))"

subsection \<open>Reading ISO strings back\<close>

text \<open>
  What it means for a string to be an ISO-8601 calendar date or instant: the readers below
  accept exactly the extended format and return the fields. They are not part of the
  backend; the theorems use them to say which date a rendered string denotes.
\<close>

definition digit_val :: "nat \<Rightarrow> nat option" where
  "digit_val c = (if 48 \<le> c \<and> c \<le> 57 then Some (c - 48) else None)"

fun number :: "nat \<Rightarrow> pystr \<Rightarrow> nat option" where
  "number acc [] = Some acc"
| "number acc (c # cs) =
     (case digit_val c of None \<Rightarrow> None | Some d \<Rightarrow> number (10 * acc + d) cs)"

definition date_fromisoformat :: "pystr \<Rightarrow> calendar_date option" where
  "date_fromisoformat s =
     (if length s = 10 \<and> s ! 4 = 45 \<and> s ! 7 = 45 then
        (case (number 0 (take 4 s), number 0 (take 2 (drop 5 s)), number 0 (drop 8 s)) of
           (Some y, Some m, Some d) \<Rightarrow>
             if 1 \<le> y \<and> 1 \<le> m \<and> m \<le> 12 \<and> 1 \<le> d \<and> d \<le> 31
             then Some \<lparr>date_year = y, date_month = m, date_day = d\<rparr> else None
         | _ \<Rightarrow> None)
      else None)"

definition time_fromisoformat :: "pystr \<Rightarrow> (nat \<times> nat \<times> nat \<times> nat) option" where
  "time_fromisoformat s =
     (if (length s = 8 \<or> length s = 15 \<and> s ! 8 = 46) \<and> s ! 2 = 58 \<and> s ! 5 = 58 then
        (case (number 0 (take 2 s), number 0 (take 2 (drop 3 s)),
               number 0 (take 2 (drop 6 s)), number 0 (drop 9 s)) of
           (Some h, Some m, Some sec, Some us) \<Rightarrow>
             if h < 24 \<and> m < 60 \<and> sec < 60 \<and> (length s = 8 \<or> 0 < us)
             then Some (h, m, sec, us) else None
         | _ \<Rightarrow> None)
      else None)"

definition fromisoformat :: "pystr \<Rightarrow> datetime option" where
  "fromisoformat s =
     (if 10 < length s \<and> s ! 10 = 84 then
        (case (date_fromisoformat (take 10 s), time_fromisoformat (drop 11 s)) of
           (Some d, Some (h, m, sec, us)) \<Rightarrow>
             Some \<lparr>year = date_year d, month = date_month d, day = date_day d,
                   hour = h, minute = m, second = sec, microsecond = us\<rparr>
         | _ \<Rightarrow> None)
      else None)"

text \<open>Chronological order of two instants: lexicographic on the fields.\<close>

fun lex_le :: "nat list \<Rightarrow> nat list \<Rightarrow> bool" where
  "lex_le [] ys = True"
| "lex_le (x # xs) [] = False"
| "lex_le (x # xs) (y # ys) = (x < y \<or> x = y \<and> lex_le xs ys)"

definition not_earlier :: "datetime \<Rightarrow> datetime \<Rightarrow> bool" where
  "not_earlier t u \<longleftrightarrow>
     lex_le [year u, month u, day u, hour u, minute u, second u, microsecond u]
            [year t, month t, day t, hour t, minute t, second t, microsecond t]"

text \<open>
  Two timestamp strings in order: both are ISO-8601 instants, and the first denotes an
  instant not earlier than the one the second denotes.
\<close>

definition timestamp_not_earlier :: "pystr \<Rightarrow> pystr \<Rightarrow> bool" where
  "timestamp_not_earlier a b =
     (case (fromisoformat a, fromisoformat b) of
        (Some t, Some u) \<Rightarrow> not_earlier t u
      | _ \<Rightarrow> False)"

subsection \<open>The outside world\<close>

record http_response =
  status_code :: nat
  content :: bytes

text \<open>
  \<open>Path.write_bytes\<close> either writes the whole content or raises; when it raises, the file
  is left as the failure left it (absent when it could not be opened, truncated or partial
  otherwise).
\<close>

datatype write_outcome = Written | Write_failed error "bytes option"

text \<open>A page record of the parsed manual (a langchain \<open>Document\<close>).\<close>

record document =
  page_content :: pystr
  metadata :: "(pystr \<times> json) list"

text \<open>The fields of an arXiv result that the backend reads.\<close>

record paper =
  title :: pystr
  summary :: pystr
  published :: datetime
  categories :: "pystr list"

datatype sort_criterion = Relevance | LastUpdatedDate | SubmittedDate

text \<open>
  A generator, as the \<open>for\<close> loop sees it: it yields a value and goes on, ends, or raises.
\<close>

datatype 'a generator = Stop | Yield 'a "'a generator" | Raise error

text \<open>
  The answers of the collaborators: the file host (\<open>requests.get\<close> with a URL and a timeout),
  the disk, the PDF loader applied to the bytes of the file, and the stream of papers the
  arXiv client serves for a query and a sort order. The stream may differ from one call of
  the client to the next, so it also depends on the number of searches the process has
  handed to the client before.
\<close>

record env =
  requests_get :: "pystr \<Rightarrow> nat \<Rightarrow> error + http_response"
  disk_write :: "bytes \<Rightarrow> write_outcome"
  loader_load :: "bytes \<Rightarrow> error + document list"
  arxiv_feed :: "nat \<Rightarrow> pystr \<Rightarrow> sort_criterion \<Rightarrow> paper generator"

text \<open>The arguments of \<open>arxiv.Search\<close> that the backend sets.\<close>

record arxiv_search =
  search_query :: pystr
  search_max_results :: nat
  search_sort_by :: sort_criterion

text \<open>The lines the module prints, one constructor for each \<open>print\<close> of the source.\<close>

datatype console_line =
    Info_downloading
  | Info_download_completed
  | Info_loaded nat
  | Error_failed_to_load error

text \<open>
  The state the module can touch: the manual file at \<open>PDF_PATH\<close> (\<open>None\<close> when it does not
  exist), the module global \<open>swat_docs\<close>, and what the module has issued so far: fetches
  of a URL, writes to \<open>PDF_PATH\<close>, searches handed to the arXiv client, printed lines.
\<close>

record state =
  pdf_file :: "bytes option"
  swat_docs :: "document list"
  fetch_log :: "pystr list"
  write_log :: "bytes list"
  search_log :: "arxiv_search list"
  stdout :: "console_line list"

subsection \<open>Document bootstrap (lines 28 to 53)\<close>

text \<open>
  The data directory is created at line 26, before the \<open>try\<close> statement and outside it;
  the model starts once it exists.
\<close>

definition GITHUB_PDF_URL :: pystr where
  "GITHUB_PDF_URL =
     lit ''https://raw.githubusercontent.com/'' @
     lit ''MeeraYasmin/Swat-Chat/main/data/SWaT%20Operation%20Manual.pdf''"

text \<open>\<open>Response.raise_for_status\<close>: an \<open>HTTPError\<close> for a 4xx or 5xx status.\<close>

definition raise_for_status :: "http_response \<Rightarrow> error + unit" where
  "raise_for_status response =
     (if 400 \<le> status_code response \<and> status_code response < 600
      then Inl (Exception (lit ''HTTPError'')) else Inr ())"

definition print :: "console_line \<Rightarrow> state \<Rightarrow> state" where
  "print l s = s\<lparr>stdout := stdout s @ [l]\<rparr>"

definition write_bytes :: "env \<Rightarrow> bytes \<Rightarrow> state \<Rightarrow> (error + unit) \<times> state" where
  "write_bytes env data s =
     (let s1 = s\<lparr>write_log := write_log s @ [data]\<rparr> in
      case disk_write env data of
        Written \<Rightarrow> (Inr (), s1\<lparr>pdf_file := Some data\<rparr>)
      | Write_failed e left \<Rightarrow> (Inl e, s1\<lparr>pdf_file := left\<rparr>))"

definition download_swat_manual :: "env \<Rightarrow> state \<Rightarrow> (error + unit) \<times> state" where
  "download_swat_manual env s =
     (if pdf_file s = None then
        (let s1 = print Info_downloading s;
             s2 = s1\<lparr>fetch_log := fetch_log s1 @ [GITHUB_PDF_URL]\<rparr> in
         case requests_get env GITHUB_PDF_URL 30 of
           Inl e \<Rightarrow> (Inl e, s2)
         | Inr response \<Rightarrow>
             (case raise_for_status response of
                Inl e \<Rightarrow> (Inl e, s2)
              | Inr _ \<Rightarrow>
                  (case write_bytes env (content response) s2 of
                     (Inl e, s3) \<Rightarrow> (Inl e, s3)
                   | (Inr _, s3) \<Rightarrow> (Inr (), print Info_download_completed s3))))
      else (Inr (), s))"

text \<open>
  \<open>PyPDFLoader(str(PDF_PATH)).load()\<close>: the loader refuses a path with no file behind it,
  and otherwise parses the bytes of the file.
\<close>

definition PyPDFLoader_load :: "env \<Rightarrow> state \<Rightarrow> error + document list" where
  "PyPDFLoader_load env s =
     (case pdf_file s of
        None \<Rightarrow> Inl (Exception (lit ''ValueError''))
      | Some data \<Rightarrow> loader_load env data)"

text \<open>The body of the \<open>try\<close> statement: the value is what \<open>swat_docs\<close> is bound to.\<close>

definition try_body :: "env \<Rightarrow> state \<Rightarrow> (error + document list) \<times> state" where
  "try_body env s =
     (case download_swat_manual env s of
        (Inl e, s1) \<Rightarrow> (Inl e, s1)
      | (Inr _, s1) \<Rightarrow>
          (case PyPDFLoader_load env s1 of
             Inl e \<Rightarrow> (Inl e, s1)
           | Inr docs \<Rightarrow>
               (Inr docs, print (Info_loaded (length docs)) (s1\<lparr>swat_docs := docs\<rparr>))))"

text \<open>
  The \<open>try\<close> statement with its handler \<open>except Exception as e\<close>. The result is \<open>Inr ()\<close>
  when the module goes on to define its routes (the process starts), and \<open>Inl e\<close> when
  \<open>e\<close> leaves the statement.
\<close>

definition load_manual :: "env \<Rightarrow> state \<Rightarrow> (error + unit) \<times> state" where
  "load_manual env s =
     (case try_body env s of
        (Inr docs, s1) \<Rightarrow> (Inr (), s1)
      | (Inl (Exception msg), s1) \<Rightarrow>
          (Inr (), print (Error_failed_to_load (Exception msg)) (s1\<lparr>swat_docs := []\<rparr>))
      | (Inl (BaseException msg), s1) \<Rightarrow> (Inl (BaseException msg), s1))"

subsection \<open>Request and response models (lines 59 to 66)\<close>

record ChatRequest =
  query :: pystr

record ChatResponse =
  answer :: pystr
  sources :: "pystr list"
  timestamp :: pystr

subsection \<open>arXiv retrieval (lines 72 to 100)\<close>

definition constrained_query :: "pystr \<Rightarrow> pystr" where
  "constrained_query q =
     lit ''(ti:\"SWaT\" OR abs:\"SWaT\" OR abs:\"Secure Water Treatment\") '' @
     lit ''AND (abs:\"cyber physical\" OR abs:\"industrial control\" '' @
     lit ''OR abs:\"ICS\" OR abs:\"water treatment\") '' @
     lit ''AND ('' @ q @ lit '')''"

text \<open>
  \<open>itertools.islice\<close> with a limit: the first \<open>n\<close> values of the generator, without asking
  for the one after them; with the limit \<open>None\<close>, the generator itself.
\<close>

fun islice :: "'a generator \<Rightarrow> nat option \<Rightarrow> 'a generator" where
  "islice g None = g"
| "islice g (Some 0) = Stop"
| "islice Stop (Some (Suc n)) = Stop"
| "islice (Yield x g) (Some (Suc n)) = Yield x (islice g (Some n))"
| "islice (Raise e) (Some (Suc n)) = Raise e"

text \<open>
  The generator that \<open>search.results()\<close> returns: the client hands on the papers served for
  the query and the sort order, cut at \<open>max_results\<close>; it reads a \<open>max_results\<close> of 0 as no
  limit. The call is the next one after the searches in \<open>search_log\<close>.
\<close>

definition results :: "env \<Rightarrow> arxiv_search \<Rightarrow> state \<Rightarrow> paper generator" where
  "results env search s =
     islice (arxiv_feed env (length (search_log s)) (search_query search)
               (search_sort_by search))
            (if search_max_results search = 0 then None else Some (search_max_results search))"

text \<open>
  The call \<open>search.results()\<close>: the generator comes back and the search is on record, so
  that a second call is the next call.
\<close>

definition Search_results :: "env \<Rightarrow> arxiv_search \<Rightarrow> state \<Rightarrow> paper generator \<times> state" where
  "Search_results env search s =
     (results env search s, s\<lparr>search_log := search_log s @ [search]\<rparr>)"

text \<open>The dictionary appended for one paper.\<close>

definition record_of :: "paper \<Rightarrow> json" where
  "record_of p =
     JObj [(lit ''title'', JStr (title p)),
           (lit ''summary'', JStr (take 400 (summary p))),
           (lit ''published'', JStr (date_isoformat (date (published p)))),
           (lit ''categories'', JArr (map JStr (categories p)))]"

text \<open>The \<open>for\<close> loop over the generator, with the list built so far.\<close>

fun for_paper :: "json list \<Rightarrow> paper generator \<Rightarrow> error + json list" where
  "for_paper rs Stop = Inr rs"
| "for_paper rs (Yield p g) = for_paper (rs @ [record_of p]) g"
| "for_paper rs (Raise e) = Inl e"

definition search_arxiv_swat ::
  "env \<Rightarrow> pystr \<Rightarrow> nat \<Rightarrow> state \<Rightarrow> (error + json list) \<times> state" where
  "search_arxiv_swat env q max_results s =
     (let search = \<lparr>search_query = constrained_query q, search_max_results = max_results,
                    search_sort_by = Relevance\<rparr>
      in case Search_results env search s of (g, s1) \<Rightarrow> (for_paper [] g, s1))"

subsection \<open>Request handlers (lines 106 to 156)\<close>

definition placeholder_answer :: pystr where
  "placeholder_answer =
     lit ''This is a placeholder response from Swat Chat. '' @
     lit ''The RAG pipeline will retrieve relevant research from arXiv '' @
     lit ''as the primary source and ground it using the SWaT Operation Manual.''"

text \<open>\<open>utcnow\<close> is the reading of the clock that \<open>datetime.utcnow()\<close> returns in this call.\<close>

definition chat_endpoint :: "datetime \<Rightarrow> ChatRequest \<Rightarrow> ChatResponse" where
  "chat_endpoint utcnow request =
     \<lparr>answer = placeholder_answer,
      sources = [lit ''arXiv (primary)'', lit ''SWaT Operation Manual (secondary)''],
      timestamp = isoformat utcnow\<rparr>"

definition arxiv_search :: "env \<Rightarrow> ChatRequest \<Rightarrow> state \<Rightarrow> (error + json) \<times> state" where
  "arxiv_search env request s =
     (case search_arxiv_swat env (query request) 3 s of
        (Inl e, s1) \<Rightarrow> (Inl e, s1)
      | (Inr papers, s1) \<Rightarrow>
          (Inr (JObj [(lit ''query'', JStr (query request)),
                      (lit ''primary_source'', JStr (lit ''arXiv'')),
                      (lit ''results'', JArr papers)]), s1))"

definition health_check :: json where
  "health_check = JObj [(lit ''status'', JStr (lit ''ok''))]"

definition kb_info :: "state \<Rightarrow> json" where
  "kb_info s =
     JObj [(lit ''documents_loaded'', JNum (int (length (swat_docs s)))),
           (lit ''secondary_source'', JStr (lit ''SWaT Operation Manual'')),
           (lit ''source_location'', JStr (lit ''GitHub (public repo)''))]"

subsection \<open>The framework around the handlers\<close>

text \<open>
  What FastAPI does with a route whose parameter is a \<open>ChatRequest\<close>: the JSON body is
  validated against the model (\<open>query: str\<close>, required; a later duplicate of a key
  replaces an earlier one; other keys are ignored) and the handler runs only on a valid
  body. An invalid body is answered with a validation error, an exception that leaves a
  handler with the default error response.
\<close>

datatype validation_error = Model_type | Missing | String_type

definition attribute :: "pystr \<Rightarrow> json \<Rightarrow> json option" where
  "attribute k body = (case body of JObj kvs \<Rightarrow> map_of (rev kvs) k | _ \<Rightarrow> None)"

definition ChatRequest_validate :: "json \<Rightarrow> validation_error + ChatRequest" where
  "ChatRequest_validate body =
     (case body of
        JObj kvs \<Rightarrow>
          (case map_of (rev kvs) (lit ''query'') of
             None \<Rightarrow> Inl Missing
           | Some (JStr q) \<Rightarrow> Inr \<lparr>query = q\<rparr>
           | Some _ \<Rightarrow> Inl String_type)
      | _ \<Rightarrow> Inl Model_type)"

definition ChatResponse_json :: "ChatResponse \<Rightarrow> json" where
  "ChatResponse_json r =
     JObj [(lit ''answer'', JStr (answer r)),
           (lit ''sources'', JArr (map JStr (sources r))),
           (lit ''timestamp'', JStr (timestamp r))]"

datatype http_request = POST_chat json | POST_arxiv_search json | GET_health | GET_kb_info

datatype reply = OK json | Unprocessable validation_error | Uncaught error

definition handle :: "env \<Rightarrow> datetime \<Rightarrow> http_request \<Rightarrow> state \<Rightarrow> reply \<times> state" where
  "handle env utcnow req s =
     (case req of
        POST_chat body \<Rightarrow>
          (case ChatRequest_validate body of
             Inl err \<Rightarrow> (Unprocessable err, s)
           | Inr request \<Rightarrow> (OK (ChatResponse_json (chat_endpoint utcnow request)), s))
      | POST_arxiv_search body \<Rightarrow>
          (case ChatRequest_validate body of
             Inl err \<Rightarrow> (Unprocessable err, s)
           | Inr request \<Rightarrow>
               (case arxiv_search env request s of
                  (Inl e, s1) \<Rightarrow> (Uncaught e, s1)
                | (Inr obj, s1) \<Rightarrow> (OK obj, s1)))
      | GET_health \<Rightarrow> (OK health_check, s)
      | GET_kb_info \<Rightarrow> (OK (kb_info s), s))"

text \<open>
  A run of the service: requests handled one after the other, each with the answers of the
  outside world and the clock reading of its moment.
\<close>

fun serve :: "(env \<times> datetime \<times> http_request) list \<Rightarrow> state \<Rightarrow> reply list \<times> state" where
  "serve [] s = ([], s)"
| "serve ((env, utcnow, req) # rest) s =
     (case handle env utcnow req s of
        (r, s1) \<Rightarrow> (case serve rest s1 of (rs, s2) \<Rightarrow> (r # rs, s2)))"

subsection \<open>What a generator yields\<close>

text \<open>The values a generator yields before it ends or raises, and the exception it ends with.\<close>

fun yielded :: "'a generator \<Rightarrow> 'a list" where
  "yielded Stop = []"
| "yielded (Yield x g) = x # yielded g"
| "yielded (Raise e) = []"

fun raised :: "'a generator \<Rightarrow> error option" where
  "raised Stop = None"
| "raised (Yield x g) = raised g"
| "raised (Raise e) = Some e"

text \<open>The search that \<open>search_arxiv_swat\<close> builds for a query and a cap.\<close>

definition search_for :: "pystr \<Rightarrow> nat \<Rightarrow> arxiv_search" where
  "search_for q n =
     \<lparr>search_query = constrained_query q, search_max_results = n,
      search_sort_by = Relevance\<rparr>"

text \<open>The generator that yields the elements of a list and ends.\<close>

fun yields :: "'a list \<Rightarrow> 'a generator" where
  "yields [] = Stop"
| "yields (x # xs) = Yield x (yields xs)"

subsection \<open>Inside the arXiv client\<close>






subsection \<open>Request bodies\<close>

text \<open>A body is rejected when validation against \<open>ChatRequest\<close> fails.\<close>

definition rejected :: "json \<Rightarrow> bool" where
  "rejected body = (case ChatRequest_validate body of Inl err \<Rightarrow> True | Inr request \<Rightarrow> False)"

subsection \<open>Timestamps of a run\<close>

text \<open>The timestamp a reply carries (the empty string when it carries none).\<close>

definition reply_timestamp :: "reply \<Rightarrow> pystr" where
  "reply_timestamp r =
     (case r of
        OK obj \<Rightarrow> (case attribute (lit ''timestamp'') obj of Some (JStr ts) \<Rightarrow> ts | _ \<Rightarrow> [])
      | _ \<Rightarrow> [])"

text \<open>Every reply of a run carries a timestamp not earlier than that of the reply before it.\<close>

fun timestamps_in_order :: "reply list \<Rightarrow> bool" where
  "timestamps_in_order [] = True"
| "timestamps_in_order [r] = True"
| "timestamps_in_order (r # r' # rs) =
     (timestamp_not_earlier (reply_timestamp r') (reply_timestamp r)
      \<and> timestamps_in_order (r' # rs))"

subsection \<open>Sample inputs\<close>

definition sample_paper :: paper where
  "sample_paper =
     \<lparr>title = lit ''Attacks on SWaT'', summary = lit ''We study the testbed.'',
      published = \<lparr>year = 2023, month = 5, day = 17, hour = 9, minute = 30, second = 0,
                   microsecond = 0\<rparr>,
      categories = [lit ''cs.CR'']\<rparr>"

definition sample_env :: env where
  "sample_env =
     \<lparr>requests_get = (\<lambda>url t. Inr \<lparr>status_code = 200, content = [37, 80, 68, 70]\<rparr>),
      disk_write = (\<lambda>data. Written),
      loader_load = (\<lambda>data. Inr [\<lparr>page_content = lit ''SWaT'', metadata = []\<rparr>]),
      arxiv_feed = (\<lambda>k q c. Yield sample_paper Stop)\<rparr>"

definition failing_env :: env where
  "failing_env =
     \<lparr>requests_get = (\<lambda>url t. Inl (Exception (lit ''ConnectionError''))),
      disk_write = (\<lambda>data. Write_failed (Exception (lit ''OSError'')) None),
      loader_load = (\<lambda>data. Inl (Exception (lit ''PdfReadError''))),
      arxiv_feed = (\<lambda>k q c. Yield sample_paper (Raise (Exception (lit ''HTTPError''))))\<rparr>"

text \<open>A paper whose summary has 500 characters.\<close>

definition long_paper :: paper where
  "long_paper =
     \<lparr>title = lit ''Anomaly detection'', summary = replicate 500 120,
      published = \<lparr>year = 2021, month = 12, day = 3, hour = 23, minute = 59, second = 59,
                   microsecond = 7\<rparr>,
      categories = [lit ''cs.LG'', lit ''eess.SY'']\<rparr>"

text \<open>An index that serves four papers for every search.\<close>

definition busy_env :: env where
  "busy_env =
     sample_env\<lparr>arxiv_feed :=
       (\<lambda>k q c. yields [long_paper, sample_paper, long_paper, sample_paper])\<rparr>"





definition fresh_state :: state where
  "fresh_state =
     \<lparr>pdf_file = None, swat_docs = [], fetch_log = [], write_log = [], search_log = [],
      stdout = []\<rparr>"

definition midnight :: datetime where
  "midnight =
     \<lparr>year = 2024, month = 1, day = 1, hour = 0, minute = 0, second = 0, microsecond = 0\<rparr>"

section \<open>Properties\<close>

subsection \<open>The search expression\<close>

lemma lit_append: "lit a @ lit b = lit (a @ b)"
  by (simp add: lit_def)

lemma lit_eq_iff: "lit a = lit b \<longleftrightarrow> a = b"
  unfolding lit_def by (simp add: inj_map_eq_map inj_on_def)

lemma constrained_query_literal:
  "constrained_query q =
     lit ''(ti:\"SWaT\" OR abs:\"SWaT\" OR abs:\"Secure Water Treatment\") AND (abs:\"cyber physical\" OR abs:\"industrial control\" OR abs:\"ICS\" OR abs:\"water treatment\") AND ('' @ q @ lit '')''"
  unfolding constrained_query_def
  by (simp only: lit_append append_assoc[symmetric]) (simp only: append.simps append_assoc)

text \<open>
  C1. For every query \<open>q\<close> (the empty one included) and every cap, \<open>search_arxiv_swat\<close>
  hands to the arXiv client exactly one search, whose expression is the fixed template
  with \<open>q\<close> inserted unchanged between the last pair of parentheses, sorted by relevance;
  and what it returns is computed from the papers the client serves for that expression
  on this call, cut at the cap (a cap of 0 is no limit).
\<close>

theorem search_arxiv_swat_sends_template:
  "search_log (snd (search_arxiv_swat env q n s)) =
     search_log s @
     [\<lparr>search_query =
         lit ''(ti:\"SWaT\" OR abs:\"SWaT\" OR abs:\"Secure Water Treatment\") AND (abs:\"cyber physical\" OR abs:\"industrial control\" OR abs:\"ICS\" OR abs:\"water treatment\") AND ('' @ q @ lit '')'',
       search_max_results = n, search_sort_by = Relevance\<rparr>]
   \<and> fst (search_arxiv_swat env q n s) =
     for_paper []
       (islice (arxiv_feed env (length (search_log s))
          (lit ''(ti:\"SWaT\" OR abs:\"SWaT\" OR abs:\"Secure Water Treatment\") AND (abs:\"cyber physical\" OR abs:\"industrial control\" OR abs:\"ICS\" OR abs:\"water treatment\") AND ('' @ q @ lit '')'')
          Relevance) (if n = 0 then None else Some n))"
  by (simp add: search_arxiv_swat_def Search_results_def results_def Let_def
      constrained_query_literal)

subsection \<open>ISO strings denote the dates they render\<close>

lemma digit_val_digit: "digit_val (digit n) = Some (n mod 10)"
  by (simp add: digit_val_def digit_def)

lemma decimal_step: "10 * (n div (k * 10)) + n div k mod 10 = (n div k :: nat)"
proof -
  have "n div (k * 10) = n div k div 10"
    by (simp add: div_mult2_eq)
  then show ?thesis by simp
qed

lemma number_zero_pad2: "n < 100 \<Longrightarrow> number 0 (zero_pad2 n) = Some n"
proof -
  assume "n < 100"
  then have a: "n div 10 mod 10 = n div 10" by simp
  have b: "10 * (n div 10) + n mod 10 = n" by simp
  show ?thesis
    unfolding zero_pad2_def by (simp only: number.simps digit_val_digit option.case a b mult_0_right add_0)
qed

lemma number_zero_pad4: "n < 10000 \<Longrightarrow> number 0 (zero_pad4 n) = Some n"
proof -
  assume "n < 10000"
  then have a: "n div 1000 mod 10 = n div 1000" by simp
  have b: "10 * (n div 1000) + n div 100 mod 10 = n div 100"
    using decimal_step[of n 100] by simp
  have c: "10 * (n div 100) + n div 10 mod 10 = n div 10"
    using decimal_step[of n 10] by simp
  have d: "10 * (n div 10) + n mod 10 = n" by simp
  show ?thesis
    unfolding zero_pad4_def by (simp only: number.simps digit_val_digit option.case a b c d mult_0_right add_0)
qed

lemma number_zero_pad6: "n < 1000000 \<Longrightarrow> number 0 (zero_pad6 n) = Some n"
proof -
  assume "n < 1000000"
  then have a: "n div 100000 mod 10 = n div 100000" by simp
  have b: "10 * (n div 100000) + n div 10000 mod 10 = n div 10000"
    using decimal_step[of n 10000] by simp
  have c: "10 * (n div 10000) + n div 1000 mod 10 = n div 1000"
    using decimal_step[of n 1000] by simp
  have d: "10 * (n div 1000) + n div 100 mod 10 = n div 100"
    using decimal_step[of n 100] by simp
  have e: "10 * (n div 100) + n div 10 mod 10 = n div 10"
    using decimal_step[of n 10] by simp
  have f: "10 * (n div 10) + n mod 10 = n" by simp
  show ?thesis
    unfolding zero_pad6_def by (simp only: number.simps digit_val_digit option.case a b c d e f mult_0_right add_0)
qed

lemma lit_separators:
  "lit ''-'' = [45]" "lit ''T'' = [84]" "lit '':'' = [58]" "lit ''.'' = [46]"
  by (simp_all add: lit_def)

lemma length_zero_pad:
  "length (zero_pad2 n) = 2" "length (zero_pad4 n) = 4" "length (zero_pad6 n) = 6"
  by (simp_all add: zero_pad2_def zero_pad4_def zero_pad6_def)

lemma date_layout:
  assumes "length a = 4" "length b = 2" "length c = 2"
  shows "length (a @ [x] @ b @ [y] @ c) = 10"
    and "(a @ [x] @ b @ [y] @ c) ! 4 = x"
    and "(a @ [x] @ b @ [y] @ c) ! 7 = y"
    and "take 4 (a @ [x] @ b @ [y] @ c) = a"
    and "take 2 (drop 5 (a @ [x] @ b @ [y] @ c)) = b"
    and "drop 8 (a @ [x] @ b @ [y] @ c) = c"
  using assms by (simp_all add: nth_append)

lemma date_fromisoformat_isoformat:
  assumes "1 \<le> date_year d" "date_year d \<le> 9999" "1 \<le> date_month d" "date_month d \<le> 12"
    "1 \<le> date_day d" "date_day d \<le> 31"
  shows "date_fromisoformat (date_isoformat d) = Some d"
proof -
  have n: "number 0 (zero_pad4 (date_year d)) = Some (date_year d)"
    "number 0 (zero_pad2 (date_month d)) = Some (date_month d)"
    "number 0 (zero_pad2 (date_day d)) = Some (date_day d)"
    using assms by (simp_all add: number_zero_pad4 number_zero_pad2)
  note l = date_layout[OF length_zero_pad(2) length_zero_pad(1) length_zero_pad(1)]
  show ?thesis
    unfolding date_fromisoformat_def date_isoformat_def lit_separators
    using assms by (simp only: l n) simp
qed

lemma length_date_isoformat: "length (date_isoformat d) = 10"
  by (simp add: date_isoformat_def length_zero_pad lit_separators)

lemma time_layout:
  assumes "length a = 2" "length b = 2" "length c = 2"
  shows "length (a @ [x] @ b @ [y] @ c @ r) = 8 + length r"
    and "(a @ [x] @ b @ [y] @ c @ r) ! 2 = x"
    and "(a @ [x] @ b @ [y] @ c @ r) ! 5 = y"
    and "take 2 (a @ [x] @ b @ [y] @ c @ r) = a"
    and "take 2 (drop 3 (a @ [x] @ b @ [y] @ c @ r)) = b"
    and "take 2 (drop 6 (a @ [x] @ b @ [y] @ c @ r)) = c"
    and "drop 9 (a @ [x] @ b @ [y] @ c @ [z] @ f) = f"
    and "drop 9 (a @ [x] @ b @ [y] @ c @ []) = []"
    and "(a @ [x] @ b @ [y] @ c @ [z] @ f) ! 8 = z"
  using assms by (simp_all add: nth_append)

lemma time_fromisoformat_isoformat:
  assumes "h < 24" "m < 60" "sec < 60" "us < 1000000"
  shows "time_fromisoformat
           (zero_pad2 h @ lit '':'' @ zero_pad2 m @ lit '':'' @ zero_pad2 sec @
            (if us = 0 then [] else lit ''.'' @ zero_pad6 us)) = Some (h, m, sec, us)"
proof -
  have n: "number 0 (zero_pad2 h) = Some h" "number 0 (zero_pad2 m) = Some m"
    "number 0 (zero_pad2 sec) = Some sec" "number 0 (zero_pad6 us) = Some us"
    using assms by (simp_all add: number_zero_pad2 number_zero_pad6)
  note l = time_layout[OF length_zero_pad(1) length_zero_pad(1) length_zero_pad(1)]
  show ?thesis
  proof (cases "us = 0")
    case True
    then show ?thesis
      unfolding time_fromisoformat_def lit_separators
      using assms by (simp only: l n if_True) (simp add: length_zero_pad)
  next
    case False
    then show ?thesis
      unfolding time_fromisoformat_def lit_separators
      using assms by (simp only: l n if_False) (simp add: length_zero_pad)
  qed
qed

lemma datetime_layout:
  assumes "length a = 10"
  shows "10 < length (a @ [x] @ r)" and "(a @ [x] @ r) ! 10 = x"
    and "take 10 (a @ [x] @ r) = a" and "drop 11 (a @ [x] @ r) = r"
  using assms by (simp_all add: nth_append)

lemma fromisoformat_isoformat:
  assumes "valid_datetime t"
  shows "fromisoformat (isoformat t) = Some t"
proof -
  have d: "date_fromisoformat (date_isoformat (date t)) = Some (date t)"
    using assms by (intro date_fromisoformat_isoformat) (simp_all add: valid_datetime_def date_def)
  have tm: "time_fromisoformat
           (zero_pad2 (hour t) @ lit '':'' @ zero_pad2 (minute t) @ lit '':'' @
            zero_pad2 (second t) @
            (if microsecond t = 0 then [] else lit ''.'' @ zero_pad6 (microsecond t))) =
        Some (hour t, minute t, second t, microsecond t)"
    using assms by (intro time_fromisoformat_isoformat) (simp_all add: valid_datetime_def)
  note l = datetime_layout[OF length_date_isoformat]
  show ?thesis
    unfolding fromisoformat_def isoformat_def lit_separators(2)
    by (simp only: l d tm) (simp add: date_def)
qed

subsection \<open>The search adapter\<close>

lemma for_paper_outcome:
  "for_paper rs g =
     (case raised g of Some e \<Rightarrow> Inl e | None \<Rightarrow> Inr (rs @ map record_of (yielded g)))"
  by (induction rs g rule: for_paper.induct) (simp_all split: option.splits)

lemma length_yielded_islice: "length (yielded (islice g (Some n))) \<le> n"
  by (induction g "Some n" arbitrary: n rule: islice.induct) simp_all

lemma search_arxiv_swat_eq:
  "search_arxiv_swat env q n s =
     (for_paper [] (results env (search_for q n) s),
      s\<lparr>search_log := search_log s @ [search_for q n]\<rparr>)"
  by (simp add: search_arxiv_swat_def Search_results_def search_for_def Let_def)

lemma published_reads_back:
  assumes "valid_datetime t"
  shows "date_fromisoformat
           (zero_pad4 (year t) @ lit ''-'' @ zero_pad2 (month t) @ lit ''-'' @ zero_pad2 (day t)) =
         Some \<lparr>date_year = year t, date_month = month t, date_day = day t\<rparr>"
proof -
  have "date_fromisoformat (date_isoformat (date t)) = Some (date t)"
    using assms
    by (intro date_fromisoformat_isoformat) (simp_all add: valid_datetime_def date_def)
  then show ?thesis
    by (simp add: date_isoformat_def date_def)
qed

text \<open>
  C3. When the generator of results ends without raising, \<open>search_arxiv_swat\<close> returns one
  record for each paper it yielded, in the order they were yielded. Each record has
  exactly the keys title, summary, published and categories, in this order: the title and
  the categories are the paper's; the summary is the first 400 characters of the paper's
  summary, so a prefix of it of length at most 400; and published is the year, the month
  and the day of the paper's publication date as \<open>YYYY-MM-DD\<close>, a string that reads back as
  exactly that year, month and day.
\<close>

theorem search_arxiv_swat_projection:
  assumes "raised (results env (search_for q n) s) = None"
  shows "fst (search_arxiv_swat env q n s) =
           Inr (map (\<lambda>p. JObj [(lit ''title'', JStr (title p)),
                               (lit ''summary'', JStr (take 400 (summary p))),
                               (lit ''published'',
                                JStr (zero_pad4 (year (published p)) @ lit ''-'' @
                                      zero_pad2 (month (published p)) @ lit ''-'' @
                                      zero_pad2 (day (published p)))),
                               (lit ''categories'', JArr (map JStr (categories p)))])
                    (yielded (results env (search_for q n) s)))
       \<and> (\<forall>p \<in> set (yielded (results env (search_for q n) s)).
              prefix (take 400 (summary p)) (summary p)
              \<and> length (take 400 (summary p)) \<le> 400
              \<and> (valid_datetime (published p) \<longrightarrow>
                   date_fromisoformat
                     (zero_pad4 (year (published p)) @ lit ''-'' @
                      zero_pad2 (month (published p)) @ lit ''-'' @
                      zero_pad2 (day (published p))) =
                   Some \<lparr>date_year = year (published p), date_month = month (published p),
                         date_day = day (published p)\<rparr>))"
proof -
  have r: "record_of =
      (\<lambda>p. JObj [(lit ''title'', JStr (title p)),
                  (lit ''summary'', JStr (take 400 (summary p))),
                  (lit ''published'',
                   JStr (zero_pad4 (year (published p)) @ lit ''-'' @
                         zero_pad2 (month (published p)) @ lit ''-'' @
                         zero_pad2 (day (published p)))),
                  (lit ''categories'', JArr (map JStr (categories p)))])"
    by (rule ext) (simp add: record_of_def date_isoformat_def date_def)
  have a: "fst (search_arxiv_swat env q n s) =
           Inr (map record_of (yielded (results env (search_for q n) s)))"
    using assms by (simp add: search_arxiv_swat_eq for_paper_outcome)
  show ?thesis
    using a published_reads_back unfolding r by (simp add: take_is_prefix)
qed

text \<open>
  The index serves four papers for a search capped at 3; the first and the third have a
  summary of 500 characters.
\<close>

theorem search_arxiv_swat_projection_witness:
  "raised (results busy_env (search_for (lit ''attack'') 3) fresh_state) = None
   \<and> yielded (results busy_env (search_for (lit ''attack'') 3) fresh_state) =
       [long_paper, sample_paper, long_paper]
   \<and> length (summary long_paper) = 500
   \<and> valid_datetime (published long_paper) \<and> valid_datetime (published sample_paper)
   \<and> fst (search_arxiv_swat busy_env (lit ''attack'') 3 fresh_state) =
       Inr [JObj [(lit ''title'', JStr (lit ''Anomaly detection'')),
                  (lit ''summary'', JStr (replicate 400 120)),
                  (lit ''published'', JStr (lit ''2021-12-03'')),
                  (lit ''categories'', JArr [JStr (lit ''cs.LG''), JStr (lit ''eess.SY'')])],
            JObj [(lit ''title'', JStr (lit ''Attacks on SWaT'')),
                  (lit ''summary'', JStr (lit ''We study the testbed.'')),
                  (lit ''published'', JStr (lit ''2023-05-17'')),
                  (lit ''categories'', JArr [JStr (lit ''cs.CR'')])],
            JObj [(lit ''title'', JStr (lit ''Anomaly detection'')),
                  (lit ''summary'', JStr (replicate 400 120)),
                  (lit ''published'', JStr (lit ''2021-12-03'')),
                  (lit ''categories'', JArr [JStr (lit ''cs.LG''), JStr (lit ''eess.SY'')])]]
   \<and> date_fromisoformat (lit ''2021-12-03'') =
       Some \<lparr>date_year = 2021, date_month = 12, date_day = 3\<rparr>
   \<and> date_fromisoformat (lit ''2023-05-17'') =
       Some \<lparr>date_year = 2023, date_month = 5, date_day = 17\<rparr>"
proof -
  have y: "results busy_env (search_for (lit ''attack'') 3) fresh_state =
      Yield long_paper (Yield sample_paper (Yield long_paper Stop))"
    by (simp add: results_def search_for_def busy_env_def numeral_3_eq_3)
  have h: "raised (results busy_env (search_for (lit ''attack'') 3) fresh_state) = None"
    by (simp add: y)
  have v: "valid_datetime (published long_paper)" "valid_datetime (published sample_paper)"
    by (simp_all add: valid_datetime_def long_paper_def sample_paper_def)
  have f: "title long_paper = lit ''Anomaly detection''"
    "take 400 (summary long_paper) = replicate 400 120"
    "length (summary long_paper) = 500"
    "categories long_paper = [lit ''cs.LG'', lit ''eess.SY'']"
    "year (published long_paper) = 2021" "month (published long_paper) = 12"
    "day (published long_paper) = 3"
    "title sample_paper = lit ''Attacks on SWaT''"
    "take 400 (summary sample_paper) = lit ''We study the testbed.''"
    "categories sample_paper = [lit ''cs.CR'']"
    "year (published sample_paper) = 2023" "month (published sample_paper) = 5"
    "day (published sample_paper) = 17"
    by (simp_all add: long_paper_def sample_paper_def lit_def)
  have i: "zero_pad4 2021 @ lit ''-'' @ zero_pad2 12 @ lit ''-'' @ zero_pad2 3 = lit ''2021-12-03''"
    "zero_pad4 2023 @ lit ''-'' @ zero_pad2 5 @ lit ''-'' @ zero_pad2 17 = lit ''2023-05-17''"
    by (simp_all add: zero_pad4_def zero_pad2_def digit_def lit_def)
  show ?thesis
    using search_arxiv_swat_projection[OF h] v
    by (simp add: y f i)
qed

lemma validate_query_body:
  "ChatRequest_validate (JObj [(lit ''query'', JStr q)]) = Inr \<lparr>query = q\<rparr>"
  by (simp add: ChatRequest_validate_def)

text \<open>
  C4. \<open>POST /arxiv-search\<close> with the body \<open>{query: q}\<close> is never rejected. Unless the search
  raises, the reply is an object with the keys query, primary_source and results, where
  query is \<open>q\<close> itself, primary_source is \<open>arXiv\<close>, and results has at most 3 elements,
  the cap the handler leaves at its default.
\<close>

theorem arxiv_search_response_shape:
  "(case fst (handle env utcnow (POST_arxiv_search (JObj [(lit ''query'', JStr q)])) s) of
      OK obj \<Rightarrow>
        raised (results env (search_for q 3) s) = None \<and>
        (\<exists>rs. obj = JObj [(lit ''query'', JStr q),
                          (lit ''primary_source'', JStr (lit ''arXiv'')),
                          (lit ''results'', JArr rs)]
             \<and> length rs \<le> 3)
    | Unprocessable err \<Rightarrow> False
    | Uncaught e \<Rightarrow> raised (results env (search_for q 3) s) = Some e)"
proof -
  have v: "ChatRequest_validate (JObj [(lit ''query'', JStr q)]) = Inr \<lparr>query = q\<rparr>"
    by (simp add: ChatRequest_validate_def)
  have l: "length (yielded (results env (search_for q 3) s)) \<le> 3"
    using length_yielded_islice[of _ 3] by (simp add: results_def search_for_def)
  show ?thesis
    using l
    by (simp add: handle_def v arxiv_search_def search_arxiv_swat_eq for_paper_outcome
        split: option.splits)
qed

subsection \<open>Failures of the search\<close>








subsection \<open>The bootstrap\<close>

text \<open>
  C7. \<open>download_swat_manual\<close> looks for the file first: when it exists, nothing is fetched,
  nothing is written and the state is unchanged. So when the file exists after a first
  call, a second call changes nothing, and the two calls together fetch at most once and
  write at most once.
\<close>

theorem download_swat_manual_idempotent:
  "(pdf_file s \<noteq> None \<longrightarrow> download_swat_manual env s = (Inr (), s)) \<and>
   (pdf_file (snd (download_swat_manual env s)) \<noteq> None \<longrightarrow>
      download_swat_manual env' (snd (download_swat_manual env s)) =
        (Inr (), snd (download_swat_manual env s))
      \<and> length (fetch_log (snd (download_swat_manual env' (snd (download_swat_manual env s)))))
           \<le> length (fetch_log s) + 1
      \<and> length (write_log (snd (download_swat_manual env' (snd (download_swat_manual env s)))))
           \<le> length (write_log s) + 1)"
proof -
  have a: "pdf_file t \<noteq> None \<Longrightarrow> download_swat_manual e t = (Inr (), t)" for e t
    by (cases "pdf_file t") (simp_all add: download_swat_manual_def)
  have f: "length (fetch_log (snd (download_swat_manual env s))) \<le> length (fetch_log s) + 1"
    by (simp add: download_swat_manual_def write_bytes_def print_def Let_def
        split: sum.splits write_outcome.splits)
  have w: "length (write_log (snd (download_swat_manual env s))) \<le> length (write_log s) + 1"
    by (simp add: download_swat_manual_def write_bytes_def print_def Let_def
        split: sum.splits write_outcome.splits)
  show ?thesis using a f w by simp
qed

text \<open>
  With the file on disk even a failing host is not contacted; starting without the file,
  two calls fetch once and write once.
\<close>

theorem download_swat_manual_idempotent_witness:
  "pdf_file (fresh_state\<lparr>pdf_file := Some [37, 80, 68, 70]\<rparr>) \<noteq> None
   \<and> download_swat_manual failing_env (fresh_state\<lparr>pdf_file := Some [37, 80, 68, 70]\<rparr>) =
       (Inr (), fresh_state\<lparr>pdf_file := Some [37, 80, 68, 70]\<rparr>)
   \<and> pdf_file (snd (download_swat_manual sample_env fresh_state)) \<noteq> None
   \<and> fetch_log (snd (download_swat_manual sample_env
         (snd (download_swat_manual sample_env fresh_state)))) = [GITHUB_PDF_URL]
   \<and> write_log (snd (download_swat_manual sample_env
         (snd (download_swat_manual sample_env fresh_state)))) = [[37, 80, 68, 70]]"
proof -
  have a: "pdf_file (fresh_state\<lparr>pdf_file := Some [37, 80, 68, 70]\<rparr>) \<noteq> None"
    by simp
  have d: "snd (download_swat_manual sample_env fresh_state) =
       \<lparr>pdf_file = Some [37, 80, 68, 70], swat_docs = [], fetch_log = [GITHUB_PDF_URL],
        write_log = [[37, 80, 68, 70]], search_log = [],
        stdout = [Info_downloading, Info_download_completed]\<rparr>"
    by (simp add: download_swat_manual_def fresh_state_def sample_env_def print_def
        raise_for_status_def write_bytes_def Let_def)
  have b: "pdf_file (snd (download_swat_manual sample_env fresh_state)) \<noteq> None"
    by (simp add: d)
  show ?thesis
    using download_swat_manual_idempotent
      [of "fresh_state\<lparr>pdf_file := Some [37, 80, 68, 70]\<rparr>" failing_env]
      download_swat_manual_idempotent[of fresh_state sample_env sample_env] a b
    by (simp add: d)
qed

lemma kb_info_count:
  "kb_info s =
     JObj [(lit ''documents_loaded'', JNum (int (length (swat_docs s)))),
           (lit ''secondary_source'', JStr (lit ''SWaT Operation Manual'')),
           (lit ''source_location'', JStr (lit ''GitHub (public repo)''))]"
  by (simp add: kb_info_def)

text \<open>
  C6. When a step of the bootstrap raises an instance of \<open>Exception\<close> (the fetch, the status
  check, the write, the loader), the handler catches it: the module goes on, \<open>swat_docs\<close>
  is empty, and \<open>GET /kb-info\<close> answers \<open>documents_loaded\<close> 0. When the bootstrap
  succeeds with the pages \<open>docs\<close>, \<open>documents_loaded\<close> is their number, which is positive
  when there is at least one page.
\<close>

theorem load_manual_degrades:
  "(fst (try_body env s) = Inl (Exception msg) \<longrightarrow>
      fst (load_manual env s) = Inr ()
      \<and> swat_docs (snd (load_manual env s)) = []
      \<and> fst (handle env' utcnow GET_kb_info (snd (load_manual env s))) =
          OK (JObj [(lit ''documents_loaded'', JNum 0),
                    (lit ''secondary_source'', JStr (lit ''SWaT Operation Manual'')),
                    (lit ''source_location'', JStr (lit ''GitHub (public repo)''))]))
   \<and> (fst (try_body env s) = Inr docs \<longrightarrow>
      fst (load_manual env s) = Inr ()
      \<and> swat_docs (snd (load_manual env s)) = docs
      \<and> fst (handle env' utcnow GET_kb_info (snd (load_manual env s))) =
          OK (JObj [(lit ''documents_loaded'', JNum (int (length docs))),
                    (lit ''secondary_source'', JStr (lit ''SWaT Operation Manual'')),
                    (lit ''source_location'', JStr (lit ''GitHub (public repo)''))])
      \<and> (docs \<noteq> [] \<longrightarrow> 0 < int (length docs)))"
proof -
  have docs: "fst (try_body env s) = Inr docs \<Longrightarrow> swat_docs (snd (try_body env s)) = docs"
    by (auto simp add: try_body_def print_def split: prod.splits sum.splits)
  show ?thesis
    using docs
    by (cases "try_body env s")
      (auto simp add: load_manual_def handle_def kb_info_count print_def
        split: sum.splits error.splits)
qed

text \<open>An unreachable host on a fresh disk, and a host that serves a one-page manual.\<close>

theorem load_manual_degrades_witness:
  "fst (try_body failing_env fresh_state) = Inl (Exception (lit ''ConnectionError''))
   \<and> fst (load_manual failing_env fresh_state) = Inr ()
   \<and> fst (handle sample_env midnight GET_kb_info (snd (load_manual failing_env fresh_state))) =
          OK (JObj [(lit ''documents_loaded'', JNum 0),
                    (lit ''secondary_source'', JStr (lit ''SWaT Operation Manual'')),
                    (lit ''source_location'', JStr (lit ''GitHub (public repo)''))])
   \<and> fst (try_body sample_env fresh_state) = Inr [\<lparr>page_content = lit ''SWaT'', metadata = []\<rparr>]
   \<and> [\<lparr>page_content = lit ''SWaT'', metadata = []\<rparr>] \<noteq> []
   \<and> fst (handle sample_env midnight GET_kb_info (snd (load_manual sample_env fresh_state))) =
          OK (JObj [(lit ''documents_loaded'', JNum 1),
                    (lit ''secondary_source'', JStr (lit ''SWaT Operation Manual'')),
                    (lit ''source_location'', JStr (lit ''GitHub (public repo)''))])"
proof -
  have a: "fst (try_body failing_env fresh_state) = Inl (Exception (lit ''ConnectionError''))"
    by (simp add: try_body_def download_swat_manual_def fresh_state_def failing_env_def
        print_def Let_def)
  have b: "fst (try_body sample_env fresh_state) =
      Inr [\<lparr>page_content = lit ''SWaT'', metadata = []\<rparr>]"
    by (simp add: try_body_def download_swat_manual_def fresh_state_def sample_env_def
        print_def raise_for_status_def write_bytes_def PyPDFLoader_load_def Let_def)
  show ?thesis
    using load_manual_degrades[of failing_env fresh_state "lit ''ConnectionError''" sample_env midnight]
      load_manual_degrades[of sample_env fresh_state _ sample_env midnight
        "[\<lparr>page_content = lit ''SWaT'', metadata = []\<rparr>]"] a b
    by simp
qed

subsection \<open>The handlers and the shared state\<close>

lemma handle_frame:
  "swat_docs (snd (handle env utcnow req s)) = swat_docs s
   \<and> pdf_file (snd (handle env utcnow req s)) = pdf_file s
   \<and> write_log (snd (handle env utcnow req s)) = write_log s
   \<and> fetch_log (snd (handle env utcnow req s)) = fetch_log s"
  by (cases req)
    (simp_all add: handle_def arxiv_search_def search_arxiv_swat_eq
      split: sum.splits prod.splits)

lemma serve_frame:
  "swat_docs (snd (serve steps s)) = swat_docs s
   \<and> pdf_file (snd (serve steps s)) = pdf_file s
   \<and> write_log (snd (serve steps s)) = write_log s
   \<and> fetch_log (snd (serve steps s)) = fetch_log s"
proof (induction steps arbitrary: s)
  case Nil
  then show ?case by simp
next
  case (Cons step steps)
  obtain env utcnow req where step: "step = (env, utcnow, req)"
    by (cases step) auto
  obtain r s1 where h: "handle env utcnow req s = (r, s1)"
    by (cases "handle env utcnow req s") auto
  have f: "swat_docs s1 = swat_docs s \<and> pdf_file s1 = pdf_file s
      \<and> write_log s1 = write_log s \<and> fetch_log s1 = fetch_log s"
    using handle_frame[of env utcnow req s] h by simp
  obtain rs s2 where r: "serve steps s1 = (rs, s2)"
    by (cases "serve steps s1") auto
  show ?case
    using Cons.IH[of s1] f by (simp add: step h r)
qed

text \<open>
  C10. Each of the four routes leaves \<open>swat_docs\<close> and the manual file as they were and
  writes nothing to the file; so does any run of requests, and \<open>GET /kb-info\<close> gives the
  same answer after any run as before it.
\<close>

theorem handlers_leave_manual_unchanged:
  "swat_docs (snd (handle env utcnow req s)) = swat_docs s
   \<and> pdf_file (snd (handle env utcnow req s)) = pdf_file s
   \<and> write_log (snd (handle env utcnow req s)) = write_log s
   \<and> swat_docs (snd (serve steps s)) = swat_docs s
   \<and> pdf_file (snd (serve steps s)) = pdf_file s
   \<and> write_log (snd (serve steps s)) = write_log s
   \<and> fst (handle env utcnow GET_kb_info (snd (serve steps s))) =
       fst (handle env' utcnow' GET_kb_info s)"
  using handle_frame[of env utcnow req s] serve_frame[of steps s]
  by (simp add: handle_def kb_info_def)

subsection \<open>The chat route\<close>

lemma placeholder_answer_literal:
  "placeholder_answer =
     lit ''This is a placeholder response from Swat Chat. The RAG pipeline will retrieve relevant research from arXiv as the primary source and ground it using the SWaT Operation Manual.''"
  unfolding placeholder_answer_def
  by (simp only: lit_append append_assoc[symmetric]) (simp only: append.simps append_assoc)

lemma chat_reply:
  "handle env t (POST_chat (JObj [(lit ''query'', JStr q)])) s =
     (OK (JObj [(lit ''answer'', JStr (lit ''This is a placeholder response from Swat Chat. The RAG pipeline will retrieve relevant research from arXiv as the primary source and ground it using the SWaT Operation Manual.'')),
               (lit ''sources'',
                JArr [JStr (lit ''arXiv (primary)''),
                      JStr (lit ''SWaT Operation Manual (secondary)'')]),
               (lit ''timestamp'', JStr (isoformat t))]), s)"
  by (simp add: handle_def validate_query_body chat_endpoint_def ChatResponse_json_def
      placeholder_answer_literal)

lemma two_chat_calls_in_order:
  "timestamps_in_order
     (fst (serve [(env, t, POST_chat (JObj [(lit ''query'', JStr q)])),
                  (env', u, POST_chat (JObj [(lit ''query'', JStr q')]))] s)) =
   timestamp_not_earlier (isoformat u) (isoformat t)"
  by (simp add: chat_reply reply_timestamp_def attribute_def lit_eq_iff)

text \<open>
  C8, as stated, fails: the timestamp is the reading of the wall clock, and nothing in the
  handler keeps a later call from reading an earlier time. Here the clock reads 00:00:30
  at the first call and 00:00:00 at the second.
\<close>

theorem chat_timestamps_counterexample:
  "\<not> timestamps_in_order
       (fst (serve [(sample_env, midnight\<lparr>second := 30\<rparr>,
                     POST_chat (JObj [(lit ''query'', JStr (lit ''What is SWaT?''))])),
                    (sample_env, midnight,
                     POST_chat (JObj [(lit ''query'', JStr (lit ''What is SWaT?''))]))]
              fresh_state))"
proof -
  have a: "fromisoformat (isoformat midnight) = Some midnight"
    by (rule fromisoformat_isoformat) (simp add: valid_datetime_def midnight_def)
  have b: "fromisoformat (isoformat (midnight\<lparr>second := 30\<rparr>)) = Some (midnight\<lparr>second := 30\<rparr>)"
    by (rule fromisoformat_isoformat) (simp add: valid_datetime_def midnight_def)
  have c: "\<not> not_earlier midnight (midnight\<lparr>second := 30\<rparr>)"
    by (simp add: not_earlier_def midnight_def)
  show ?thesis
    using c by (simp only: two_chat_calls_in_order timestamp_not_earlier_def a b) simp
qed

text \<open>
  C8, amended. For every query and every clock reading, \<open>POST /chat\<close> replies with the same
  answer and the same two source labels; only the timestamp depends on the call. The
  timestamp is the ISO-8601 rendering of the UTC clock reading of the call and reads back
  as that instant. Of two calls in a run, the second carries a timestamp not earlier than
  the first exactly when the clock reading of the second is not earlier than that of the
  first.
\<close>

theorem chat_reply_constant_but_timestamp:
  "fst (handle env t (POST_chat (JObj [(lit ''query'', JStr q)])) s) =
     OK (JObj [(lit ''answer'', JStr (lit ''This is a placeholder response from Swat Chat. The RAG pipeline will retrieve relevant research from arXiv as the primary source and ground it using the SWaT Operation Manual.'')),
               (lit ''sources'',
                JArr [JStr (lit ''arXiv (primary)''),
                      JStr (lit ''SWaT Operation Manual (secondary)'')]),
               (lit ''timestamp'', JStr (isoformat t))])
   \<and> (valid_datetime t \<longrightarrow> fromisoformat (isoformat t) = Some t)
   \<and> (valid_datetime t \<and> valid_datetime u \<longrightarrow>
        timestamps_in_order
          (fst (serve [(env, t, POST_chat (JObj [(lit ''query'', JStr q)])),
                       (env', u, POST_chat (JObj [(lit ''query'', JStr q')]))] s)) =
        not_earlier u t)"
proof -
  have a: "valid_datetime x \<Longrightarrow> fromisoformat (isoformat x) = Some x" for x
    by (rule fromisoformat_isoformat)
  show ?thesis
    using a[of t] a[of u]
    by (simp only: two_chat_calls_in_order) (simp add: chat_reply timestamp_not_earlier_def)
qed

text \<open>Two calls thirty seconds apart, with different queries.\<close>

theorem chat_reply_constant_but_timestamp_witness:
  "valid_datetime midnight \<and> valid_datetime (midnight\<lparr>second := 30\<rparr>)
   \<and> not_earlier (midnight\<lparr>second := 30\<rparr>) midnight
   \<and> fromisoformat (isoformat midnight) = Some midnight
   \<and> timestamps_in_order
       (fst (serve [(sample_env, midnight, POST_chat (JObj [(lit ''query'', JStr (lit ''a''))])),
                    (failing_env, midnight\<lparr>second := 30\<rparr>,
                     POST_chat (JObj [(lit ''query'', JStr (lit ''b''))]))]
              fresh_state))"
proof -
  have a: "valid_datetime midnight" "valid_datetime (midnight\<lparr>second := 30\<rparr>)"
    by (simp_all add: valid_datetime_def midnight_def)
  have b: "not_earlier (midnight\<lparr>second := 30\<rparr>) midnight"
    by (simp add: not_earlier_def midnight_def)
  show ?thesis
    using chat_reply_constant_but_timestamp[of sample_env midnight "lit ''a''" fresh_state "midnight\<lparr>second := 30\<rparr>"
        failing_env "lit ''b''"] a b
    by simp
qed

subsection \<open>Request validation\<close>

text \<open>
  C9, as stated, fails: in the body \<open>{query: null}\<close> the attribute is present, and the body
  is rejected, because the model declares \<open>query: str\<close>.
\<close>

theorem null_query_counterexample:
  "attribute (lit ''query'') (JObj [(lit ''query'', JNull)]) = Some JNull
   \<and> rejected (JObj [(lit ''query'', JNull)])
   \<and> fst (handle sample_env midnight (POST_chat (JObj [(lit ''query'', JNull)])) fresh_state) =
       Unprocessable String_type"
  by (simp add: attribute_def rejected_def ChatRequest_validate_def handle_def)

text \<open>
  C9, amended. A body is rejected by both routes, before the handler runs and with the
  state unchanged, exactly when it has no \<open>query\<close> attribute whose value is a string. When
  \<open>query\<close> is a string, of whatever length and content, the body is accepted and the
  handler receives that string.
\<close>

theorem chat_request_validation:
  "(rejected body \<longleftrightarrow> (\<forall>q. attribute (lit ''query'') body \<noteq> Some (JStr q)))
   \<and> (rejected body \<longrightarrow>
        (\<exists>err. handle env t (POST_chat body) s = (Unprocessable err, s)
             \<and> handle env t (POST_arxiv_search body) s = (Unprocessable err, s)))
   \<and> (attribute (lit ''query'') body = Some (JStr q) \<longrightarrow>
        ChatRequest_validate body = Inr \<lparr>query = q\<rparr>
        \<and> fst (handle env t (POST_chat body) s) =
            OK (ChatResponse_json (chat_endpoint t \<lparr>query = q\<rparr>))
        \<and> handle env t (POST_arxiv_search body) s =
            (case arxiv_search env \<lparr>query = q\<rparr> s of
               (Inl e, s1) \<Rightarrow> (Uncaught e, s1) | (Inr obj, s1) \<Rightarrow> (OK obj, s1)))"
proof -
  have v: "ChatRequest_validate body =
      (case attribute (lit ''query'') body of
         Some (JStr x) \<Rightarrow> Inr \<lparr>query = x\<rparr>
       | Some _ \<Rightarrow> Inl String_type
       | None \<Rightarrow> (case body of JObj kvs \<Rightarrow> Inl Missing | _ \<Rightarrow> Inl Model_type))"
    by (simp add: ChatRequest_validate_def attribute_def split: json.splits option.splits)
  show ?thesis
    by (auto simp add: rejected_def handle_def v split: option.splits json.splits)
qed

text \<open>A body with a misspelt key, and a body with the key.\<close>

theorem chat_request_validation_witness:
  "rejected (JObj [(lit ''q'', JStr (lit ''What is SWaT?''))])
   \<and> handle sample_env midnight (POST_chat (JObj [(lit ''q'', JStr (lit ''What is SWaT?''))]))
        fresh_state = (Unprocessable Missing, fresh_state)
   \<and> attribute (lit ''query'') (JObj [(lit ''query'', JStr (lit ''What is SWaT?''))]) =
       Some (JStr (lit ''What is SWaT?''))
   \<and> \<not> rejected (JObj [(lit ''query'', JStr (lit ''What is SWaT?''))])
   \<and> ChatRequest_validate (JObj [(lit ''query'', JStr (lit ''What is SWaT?''))]) =
       Inr \<lparr>query = lit ''What is SWaT?''\<rparr>"
proof -
  have a: "attribute (lit ''query'') (JObj [(lit ''q'', JStr (lit ''What is SWaT?''))]) = None"
    by (simp add: attribute_def lit_eq_iff)
  have b: "attribute (lit ''query'') (JObj [(lit ''query'', JStr (lit ''What is SWaT?''))]) =
       Some (JStr (lit ''What is SWaT?''))"
    by (simp add: attribute_def)
  have c: "handle sample_env midnight
        (POST_chat (JObj [(lit ''q'', JStr (lit ''What is SWaT?''))])) fresh_state =
      (Unprocessable Missing, fresh_state)"
    by (simp add: handle_def ChatRequest_validate_def lit_eq_iff)
  show ?thesis
    using chat_request_validation[of "JObj [(lit ''q'', JStr (lit ''What is SWaT?''))]" sample_env midnight
        fresh_state]
      chat_request_validation[of "JObj [(lit ''query'', JStr (lit ''What is SWaT?''))]" sample_env midnight
        fresh_state "lit ''What is SWaT?''"] a b c
    by simp
qed

end
